theory Spec2Isabelle
  imports Complex_Main
begin

section \<open>The shared pool store and the worker (rocket\_learn/worker.py)\<close>

text \<open>
  Python floats are read as real numbers throughout: the development is about the
  arithmetic the code writes down, not about rounding. Every exception the code can raise
  is a value of \<open>error\<close>; a function that touches the store returns its outcome together
  with the store it leaves behind, so that a raise in the middle keeps the writes made
  before it.
\<close>

datatype error =
    NameError string
  | AttributeError string
  | KeyError string
  | TypeError
  | ValueError
  | IndexError
  | ZeroDivisionError
  | DataError
  | ResponseError

subsection \<open>Redis\<close>

text \<open>
  Byte strings stay abstract: \<open>Blob b\<close> is a serialized payload, \<open>Num r\<close> is a byte
  string that \<open>float()\<close> and Lua's \<open>tonumber\<close> read as \<open>r\<close>. A key holds a string or a
  list; a command on the wrong kind is answered with WRONGTYPE, which redis-py raises as
  ResponseError.
\<close>

datatype payload = Blob string | Num real

datatype rvalue = RString payload | RList "payload list"

type_synonym store = "string \<Rightarrow> rvalue option"

definition redis_delete :: "string \<Rightarrow> store \<Rightarrow> store" where
  "redis_delete k s = s(k := None)"

definition redis_set :: "string \<Rightarrow> payload \<Rightarrow> store \<Rightarrow> store" where
  "redis_set k v s = s(k \<mapsto> RString v)"

definition redis_get :: "string \<Rightarrow> store \<Rightarrow> error + payload option" where
  "redis_get k s =
     (case s k of
        None \<Rightarrow> Inr None
      | Some (RString v) \<Rightarrow> Inr (Some v)
      | Some (RList xs) \<Rightarrow> Inl ResponseError)"

definition redis_rpush :: "string \<Rightarrow> payload \<Rightarrow> store \<Rightarrow> error + store" where
  "redis_rpush k v s =
     (case s k of
        None \<Rightarrow> Inr (s(k \<mapsto> RList [v]))
      | Some (RList xs) \<Rightarrow> Inr (s(k \<mapsto> RList (xs @ [v])))
      | Some (RString w) \<Rightarrow> Inl ResponseError)"

text \<open>\<open>lrange(key, 0, -1)\<close>: the whole list, empty when the key is missing.\<close>

definition redis_lrange :: "string \<Rightarrow> store \<Rightarrow> error + payload list" where
  "redis_lrange k s =
     (case s k of
        None \<Rightarrow> Inr []
      | Some (RList xs) \<Rightarrow> Inr xs
      | Some (RString w) \<Rightarrow> Inl ResponseError)"

definition redis_llen :: "string \<Rightarrow> store \<Rightarrow> error + nat" where
  "redis_llen k s =
     (case s k of
        None \<Rightarrow> Inr 0
      | Some (RList xs) \<Rightarrow> Inr (length xs)
      | Some (RString w) \<Rightarrow> Inl ResponseError)"

text \<open>Redis list positions: a negative index counts from the tail.\<close>

definition list_pos :: "'a list \<Rightarrow> int \<Rightarrow> nat option" where
  "list_pos xs i =
     (if 0 \<le> i \<and> i < int (length xs) then Some (nat i)
      else if i < 0 \<and> - int (length xs) \<le> i then Some (nat (int (length xs) + i))
      else None)"

definition redis_lindex :: "string \<Rightarrow> int \<Rightarrow> store \<Rightarrow> error + payload option" where
  "redis_lindex k i s =
     (case s k of
        None \<Rightarrow> Inr None
      | Some (RList xs) \<Rightarrow>
          (case list_pos xs i of None \<Rightarrow> Inr None | Some j \<Rightarrow> Inr (Some (xs ! j)))
      | Some (RString w) \<Rightarrow> Inl ResponseError)"

definition redis_lset :: "string \<Rightarrow> int \<Rightarrow> payload \<Rightarrow> store \<Rightarrow> error + store" where
  "redis_lset k i v s =
     (case s k of
        None \<Rightarrow> Inl ResponseError
      | Some (RList xs) \<Rightarrow>
          (case list_pos xs i of
             None \<Rightarrow> Inl ResponseError
           | Some j \<Rightarrow> Inr (s(k \<mapsto> RList (xs[j := v]))))
      | Some (RString w) \<Rightarrow> Inl ResponseError)"

subsection \<open>The module's names\<close>

definition QUALITIES :: string where "QUALITIES = ''qualities''"
definition MODEL_LATEST :: string where "MODEL_LATEST = ''model-latest''"
definition ROLLOUTS :: string where "ROLLOUTS = ''rollout''"
definition VERSION_LATEST :: string where "VERSION_LATEST = ''model-version''"

text \<open>
  A Python object is a string or something with attributes. \<open>worker_globals\<close> is the
  global namespace of worker.py after its top level has run: the names bound by its
  imports, its five assignments and its six \<open>def\<close>s, in source order. Imported modules
  and functions are opaque (no attribute of theirs is read by the code below).
\<close>

datatype pyobj = PyStr string | PyObj "(string \<times> pyobj) list"

type_synonym namespace = "(string \<times> pyobj) list"

definition worker_globals :: namespace where
  "worker_globals =
     [(''os'', PyObj []), (''pickle'', PyObj []), (''time'', PyObj []),
      (''np'', PyObj []), (''Match'', PyObj []), (''Gym'', PyObj []),
      (''Redis'', PyObj []), (''msgpack'', PyObj []),
      (''BLUE_TEAM'', PyObj []), (''ORANGE_TEAM'', PyObj []),
      (''ExperienceBuffer'', PyObj []), (''utils'', PyObj []),
      (''QUALITIES'', PyStr QUALITIES),
      (''MODEL_LATEST'', PyStr MODEL_LATEST),
      (''MODEL_N'', PyStr ''model-{}''),
      (''ROLLOUTS'', PyStr ROLLOUTS),
      (''VERSION_LATEST'', PyStr VERSION_LATEST),
      (''update_model'', PyObj []), (''add_opponent'', PyObj []),
      (''_softmax'', PyObj []), (''get_opponent_index'', PyObj []),
      (''update_opponent_quality'', PyObj []), (''worker'', PyObj [])]"

text \<open>
  Reading a global name that is not bound raises NameError (none of the names looked up
  below is a builtin); reading a missing attribute raises AttributeError.
\<close>

definition load_name :: "namespace \<Rightarrow> string \<Rightarrow> error + pyobj" where
  "load_name g nm = (case map_of g nm of None \<Rightarrow> Inl (NameError nm) | Some v \<Rightarrow> Inr v)"

definition load_attr :: "pyobj \<Rightarrow> string \<Rightarrow> error + pyobj" where
  "load_attr obj a =
     (case obj of
        PyStr s \<Rightarrow> Inl (AttributeError a)
      | PyObj attrs \<Rightarrow>
          (case map_of attrs a of None \<Rightarrow> Inl (AttributeError a) | Some v \<Rightarrow> Inr v))"

text \<open>redis-py accepts a string as a key and refuses an arbitrary object.\<close>

definition as_key :: "pyobj \<Rightarrow> error + string" where
  "as_key obj = (case obj of PyStr s \<Rightarrow> Inr s | PyObj attrs \<Rightarrow> Inl DataError)"

text \<open>The expression \<open>Keys.X\<close>, used as a key.\<close>

definition Keys_attr :: "namespace \<Rightarrow> string \<Rightarrow> error + string" where
  "Keys_attr g a =
     (case load_name g ''Keys'' of
        Inl e \<Rightarrow> Inl e
      | Inr obj \<Rightarrow> (case load_attr obj a of Inl e \<Rightarrow> Inl e | Inr v \<Rightarrow> as_key v))"

subsection \<open>update\_model and add\_opponent\<close>

text \<open>
  \<open>redis.set(key, *state_dict_dump)\<close>: the list is spread over the positional parameters
  of \<open>set\<close>. Without an element the required \<open>value\<close> is missing (TypeError); with one
  it is a plain SET; a second element lands in the expiry parameter \<open>ex\<close>, where a byte
  payload is refused.
\<close>

definition redis_set_star :: "string \<Rightarrow> payload list \<Rightarrow> store \<Rightarrow> error + store" where
  "redis_set_star k args s =
     (case args of
        [] \<Rightarrow> Inl TypeError
      | [v] \<Rightarrow> Inr (redis_set k v s)
      | v # ex # rest \<Rightarrow> Inl DataError)"

definition update_model ::
  "namespace \<Rightarrow> store \<Rightarrow> payload list \<Rightarrow> payload \<Rightarrow> (error + unit) \<times> store" where
  "update_model g s state_dict_dump version =
     (case Keys_attr g ''MODEL_LATEST'' of
        Inl e \<Rightarrow> (Inl e, s)
      | Inr k1 \<Rightarrow>
     let s1 = redis_delete k1 s in
     (case Keys_attr g ''VERSION_LATEST'' of
        Inl e \<Rightarrow> (Inl e, s1)
      | Inr k2 \<Rightarrow>
     let s2 = redis_delete k2 s1 in
     (case Keys_attr g ''MODEL_LATEST'' of
        Inl e \<Rightarrow> (Inl e, s2)
      | Inr k3 \<Rightarrow>
     (case redis_set_star k3 state_dict_dump s2 of
        Inl e \<Rightarrow> (Inl e, s2)
      | Inr s3 \<Rightarrow>
     (case Keys_attr g ''VERSION_LATEST'' of
        Inl e \<Rightarrow> (Inl e, s3)
      | Inr k4 \<Rightarrow> (Inr (), redis_set k4 version s3))))))"

text \<open>\<open>[float(v) for v in ...]\<close>: the first entry that is not a number raises ValueError.\<close>

definition py_float :: "payload \<Rightarrow> error + real" where
  "py_float v = (case v of Num r \<Rightarrow> Inr r | Blob b \<Rightarrow> Inl ValueError)"

fun floats :: "payload list \<Rightarrow> error + real list" where
  "floats [] = Inr []"
| "floats (v # vs) =
     (case py_float v of
        Inl e \<Rightarrow> Inl e
      | Inr r \<Rightarrow> (case floats vs of Inl e \<Rightarrow> Inl e | Inr rs \<Rightarrow> Inr (r # rs)))"

definition read_qualities :: "store \<Rightarrow> error + real list" where
  "read_qualities s =
     (case redis_lrange QUALITIES s of Inl e \<Rightarrow> Inl e | Inr vs \<Rightarrow> floats vs)"

definition add_opponent ::
  "namespace \<Rightarrow> store \<Rightarrow> payload \<Rightarrow> (error + unit) \<times> store" where
  "add_opponent g s state_dict_dump =
     (case Keys_attr g ''OP_MODELS'' of
        Inl e \<Rightarrow> (Inl e, s)
      | Inr k \<Rightarrow>
     (case redis_rpush k state_dict_dump s of
        Inl e \<Rightarrow> (Inl e, s)
      | Inr s1 \<Rightarrow>
     (case read_qualities s1 of
        Inl e \<Rightarrow> (Inl e, s1)
      | Inr qualities \<Rightarrow>
     let quality = (if qualities \<noteq> [] then Max (set qualities) else 0) in
     (case redis_rpush QUALITIES (Num quality) s1 of
        Inl e \<Rightarrow> (Inl e, s1)
      | Inr s2 \<Rightarrow> (Inr (), s2)))))"

subsection \<open>Softmax and opponent choice\<close>

text \<open>\<open>np.max\<close> of an empty array raises ValueError, before anything is exponentiated.\<close>

definition softmax :: "real list \<Rightarrow> error + real list" where
  "softmax x =
     (if x = [] then Inl ValueError
      else let e_x = map (\<lambda>v. exp (v - Max (set x))) x
           in Inr (map (\<lambda>e. e / sum_list e_x) e_x))"

text \<open>
  The random generator is the stream of uniform draws it will produce. \<open>np.random.choice\<close>
  with \<open>p\<close> refuses an empty range, a negative entry and entries that do not sum to 1
  (ValueError); otherwise it takes one draw \<open>u\<close> and returns the number of entries of the
  normalised cumulative sums of \<open>p\<close> that are at most \<open>u\<close> (\<open>searchsorted\<close> from the
  right).
\<close>

type_synonym rng = "nat \<Rightarrow> real"

definition random :: "rng \<Rightarrow> real \<times> rng" where
  "random r = (r 0, \<lambda>i. r (Suc i))"

fun cumsum :: "real \<Rightarrow> real list \<Rightarrow> real list" where
  "cumsum acc [] = []"
| "cumsum acc (p # ps) = (acc + p) # cumsum (acc + p) ps"

definition choice :: "real list \<Rightarrow> rng \<Rightarrow> (error + nat) \<times> rng" where
  "choice p r =
     (if p = [] \<or> (\<exists>x \<in> set p. x < 0) \<or> sum_list p \<noteq> 1 then (Inl ValueError, r)
      else let cdf = map (\<lambda>c. c / sum_list p) (cumsum 0 p);
               (u, r') = random r
           in (Inr (length (takeWhile (\<lambda>c. c \<le> u) cdf)), r'))"

definition get_opponent_index :: "store \<Rightarrow> rng \<Rightarrow> (error + nat \<times> real) \<times> rng" where
  "get_opponent_index s r =
     (case read_qualities s of
        Inl e \<Rightarrow> (Inl e, r)
      | Inr qualities \<Rightarrow>
     (case softmax qualities of
        Inl e \<Rightarrow> (Inl e, r)
      | Inr probs \<Rightarrow>
     (case choice probs r of
        (Inl e, r') \<Rightarrow> (Inl e, r')
      | (Inr index, r') \<Rightarrow>
     if index < length probs then (Inr (index, probs ! index), r')
     else (Inl IndexError, r'))))"

subsection \<open>update\_opponent\_quality\<close>

text \<open>
  The Lua script, run by the server in one piece: LINDEX answers nil for a missing key or
  position, \<open>tonumber\<close> of nil or of a non-number is nil, and arithmetic on nil aborts the
  script (ResponseError) before LSET.
\<close>

definition lua_tonumber :: "payload option \<Rightarrow> real option" where
  "lua_tonumber v = (case v of Some (Num r) \<Rightarrow> Some r | Some (Blob b) \<Rightarrow> None | None \<Rightarrow> None)"

definition quality_script :: "string \<Rightarrow> int \<Rightarrow> real \<Rightarrow> store \<Rightarrow> (error + unit) \<times> store" where
  "quality_script key index delta s =
     (case redis_lindex key index s of
        Inl e \<Rightarrow> (Inl e, s)
      | Inr v \<Rightarrow>
     (case lua_tonumber v of
        None \<Rightarrow> (Inl ResponseError, s)
      | Some q \<Rightarrow>
     let new_q = q + delta in
     (case redis_lset key index (Num new_q) s of
        Inl e \<Rightarrow> (Inl e, s)
      | Inr s' \<Rightarrow> (Inr (), s'))))"

text \<open>
  \<open>delta = rate / (n * prob)\<close> is computed by the caller from a separate LLEN; a zero
  divisor raises ZeroDivisionError (Python float arguments).
\<close>

definition update_opponent_quality ::
  "store \<Rightarrow> int \<Rightarrow> real \<Rightarrow> real \<Rightarrow> (error + unit) \<times> store" where
  "update_opponent_quality s index prob rate =
     (case redis_llen QUALITIES s of
        Inl e \<Rightarrow> (Inl e, s)
      | Inr n \<Rightarrow>
     if real n * prob = 0 then (Inl ZeroDivisionError, s)
     else let delta = rate / (real n * prob)
          in quality_script QUALITIES index delta s)"

subsection \<open>One pass of the worker loop, up to the shuffle\<close>

definition current_version_prob :: real where
  "current_version_prob = 8 / 10"

text \<open>\<open>MODEL_N.format(index)\<close>: the decimal numeral of the index after \<open>model-\<close>.\<close>

definition digit :: "nat \<Rightarrow> char" where
  "digit d = char_of (of_char CHR ''0'' + d)"

function str_nat :: "nat \<Rightarrow> string" where
  "str_nat n = (if n < 10 then [digit n] else str_nat (n div 10) @ [digit (n mod 10)])"
  by pat_completeness auto
termination
  by (relation "measure (\<lambda>n. n)") auto

definition MODEL_N_format :: "nat \<Rightarrow> string" where
  "MODEL_N_format index = ''model-'' @ str_nat index"

text \<open>
  \<open>msgpack.loads(redis.get(key))\<close>: a missing key gives None, which \<open>loads\<close> refuses
  with TypeError; a byte string that is a number's text is not one msgpack object
  (ExtraData, a ValueError).
\<close>

definition loads_get :: "string \<Rightarrow> store \<Rightarrow> error + string" where
  "loads_get k s =
     (case redis_get k s of
        Inl e \<Rightarrow> Inl e
      | Inr None \<Rightarrow> Inl TypeError
      | Inr (Some (Blob b)) \<Rightarrow> Inr b
      | Inr (Some (Num r)) \<Rightarrow> Inl ValueError)"

text \<open>Line 96: the probability used for each seat after the reserved one.\<close>

definition adjusted_prob :: "real \<Rightarrow> int \<Rightarrow> real" where
  "adjusted_prob p n_agents = (p * of_int n_agents - 1) / (of_int n_agents - 1)"

text \<open>
  The entries of \<open>agents\<close>: the reserved seat is the pair (agent, version), every other
  seat the triple (agent, version, prob).
\<close>

datatype seat = Reserved string string | Drawn string string real

fun sample_seats ::
  "store \<Rightarrow> string \<Rightarrow> real \<Rightarrow> nat \<Rightarrow> rng \<Rightarrow> seat list \<Rightarrow> error + seat list" where
  "sample_seats s current_agent adjusted 0 r agents = Inr agents"
| "sample_seats s current_agent adjusted (Suc k) r agents =
     (let (u, r1) = random r; is_current = (u < adjusted)
      in if \<not> is_current then
           (case get_opponent_index s r1 of
              (Inl e, r2) \<Rightarrow> Inl e
            | (Inr (index, prob), r2) \<Rightarrow>
                (case loads_get (MODEL_N_format index) s of
                   Inl e \<Rightarrow> Inl e
                 | Inr selected_agent \<Rightarrow>
                     sample_seats s current_agent adjusted k r2
                       (agents @ [Drawn selected_agent (MODEL_N_format index) prob])))
         else sample_seats s current_agent adjusted k r1
                (agents @ [Drawn current_agent MODEL_LATEST current_version_prob]))"

definition worker_agents :: "store \<Rightarrow> int \<Rightarrow> rng \<Rightarrow> error + seat list" where
  "worker_agents s n_agents r =
     (case loads_get MODEL_LATEST s of
        Inl e \<Rightarrow> Inl e
      | Inr current_agent \<Rightarrow>
     let agents = [Reserved current_agent MODEL_LATEST] in
     if n_agents > 1 then
       sample_seats s current_agent (adjusted_prob current_version_prob n_agents)
         (nat (n_agents - 1)) r agents
     else Inr agents)"

section \<open>The episode loop (rocket\_learn/game\_manager/default\_manager.py)\<close>

text \<open>
  Cars and identifiers are strings; a Python dict is an association list in insertion
  order. The environment and the agents are objects of classes that are not part of the
  module, so they are parameters: an environment is a state \<open>'e\<close> with its four methods,
  the agents are handles into a joint state \<open>'w\<close> with the two methods the loop calls.
  \<open>step\<close> also returns rewards and an info object, which the loop never reads.
\<close>

definition dict_get :: "(string \<times> 'v) list \<Rightarrow> string \<Rightarrow> error + 'v" where
  "dict_get d k = (case map_of d k of None \<Rightarrow> Inl (KeyError k) | Some v \<Rightarrow> Inr v)"

fun dict_set :: "(string \<times> 'v) list \<Rightarrow> string \<Rightarrow> 'v \<Rightarrow> (string \<times> 'v) list" where
  "dict_set [] k v = [(k, v)]"
| "dict_set ((k', v') # d) k v = (if k' = k then (k, v) # d else (k', v') # dict_set d k v)"

fun dict_update :: "(string \<times> 'v) list \<Rightarrow> (string \<times> 'v) list \<Rightarrow> (string \<times> 'v) list" where
  "dict_update d [] = d"
| "dict_update d ((k, v) # kvs) = dict_update (dict_set d k v) kvs"

definition startswith :: "string \<Rightarrow> string \<Rightarrow> bool" where
  "startswith k p = (take (length p) k = p)"

record options =
  boost_consumption :: real
  gravity :: real
  blue :: nat
  orange :: nat

record 'o step_result =
  observations :: "(string \<times> 'o) list"
  terminated :: "(string \<times> bool) list"
  truncated :: "(string \<times> bool) list"

record ('e, 'o, 'c, 'g) env =
  env_reset :: "options \<Rightarrow> 'e \<Rightarrow> (string \<times> 'o) list \<times> 'e"
  env_step :: "(string \<times> 'c) list \<Rightarrow> 'e \<Rightarrow> 'o step_result \<times> 'e"
  env_agents :: "'e \<Rightarrow> string list"
  env_state :: "'e \<Rightarrow> 'g"

record ('w, 'o, 'c, 'g) agent_ops =
  agent_act :: "nat \<Rightarrow> (string \<times> 'o) list \<Rightarrow> 'w \<Rightarrow> (string \<times> 'c) list \<times> 'w"
  agent_end :: "nat \<Rightarrow> 'g \<Rightarrow> (string \<times> bool) list \<Rightarrow> 'w \<Rightarrow> 'w"

text \<open>
  \<open>identifier_cars.setdefault(identifier, set()).add(car)\<close> over the matchup. A set of cars
  is a list without repetition, read in insertion order (Python fixes no order for it;
  the order only decides the order of the keys an agent sees).
\<close>

definition set_add :: "string \<Rightarrow> string list \<Rightarrow> string list" where
  "set_add car cars = (if car \<in> set cars then cars else cars @ [car])"

fun group_cars ::
  "(string \<times> string) list \<Rightarrow> (string \<times> string list) list \<Rightarrow> (string \<times> string list) list" where
  "group_cars [] identifier_cars = identifier_cars"
| "group_cars ((car, identifier) # rest) identifier_cars =
     group_cars rest
       (case map_of identifier_cars identifier of
          None \<Rightarrow> identifier_cars @ [(identifier, [car])]
        | Some cars \<Rightarrow> dict_set identifier_cars identifier (set_add car cars))"

text \<open>\<open>{car: observations[car] for car in cars}\<close>\<close>

fun gather ::
  "(string \<times> 'o) list \<Rightarrow> string list \<Rightarrow> (string \<times> 'o) list \<Rightarrow> error + (string \<times> 'o) list" where
  "gather obs [] seen = Inr seen"
| "gather obs (car # cars) seen =
     (case dict_get obs car of
        Inl e \<Rightarrow> Inl e
      | Inr ob \<Rightarrow> gather obs cars (dict_set seen car ob))"

text \<open>Lines 48 to 54: every identifier of the matchup acts for all of its cars.\<close>

fun select_actions ::
  "('w, 'o, 'c, 'g) agent_ops \<Rightarrow> (string \<times> nat) list \<Rightarrow> (string \<times> 'o) list \<Rightarrow>
   (string \<times> string list) list \<Rightarrow> (string \<times> 'c) list \<Rightarrow> 'w \<Rightarrow>
   (error + (string \<times> 'c) list) \<times> 'w" where
  "select_actions A identifier_agent obs [] all_actions w = (Inr all_actions, w)"
| "select_actions A identifier_agent obs ((identifier, cars) # rest) all_actions w =
     (case dict_get identifier_agent identifier of
        Inl e \<Rightarrow> (Inl e, w)
      | Inr agent \<Rightarrow>
     (case gather obs cars [] of
        Inl e \<Rightarrow> (Inl e, w)
      | Inr seen \<Rightarrow>
     let (actions, w') = agent_act A agent seen w
     in select_actions A identifier_agent obs rest (dict_update all_actions actions) w'))"

text \<open>Lines 71 to 73: \<open>agent.end\<close> for every identifier collected in \<open>ended\<close>.\<close>

fun end_agents ::
  "('w, 'o, 'c, 'g) agent_ops \<Rightarrow> (string \<times> nat) list \<Rightarrow> 'g \<Rightarrow>
   (string \<times> (string \<times> bool) list) list \<Rightarrow> 'w \<Rightarrow> (error + unit) \<times> 'w" where
  "end_agents A identifier_agent st [] w = (Inr (), w)"
| "end_agents A identifier_agent st ((identifier, truncs) # rest) w =
     (case dict_get identifier_agent identifier of
        Inl e \<Rightarrow> (Inl e, w)
      | Inr agent \<Rightarrow> end_agents A identifier_agent st rest (agent_end A agent st truncs w))"

text \<open>
  Lines 64 to 73: the loop over \<open>self.env.agents\<close>. \<open>ended\<close> is created afresh for each
  car, and \<open>or\<close> reads \<open>truncated[car]\<close> only when \<open>terminated[car]\<close> is false.
\<close>

fun notify_ended ::
  "('w, 'o, 'c, 'g) agent_ops \<Rightarrow> (string \<times> string) list \<Rightarrow> (string \<times> nat) list \<Rightarrow> 'g \<Rightarrow>
   (string \<times> bool) list \<Rightarrow> (string \<times> bool) list \<Rightarrow> string list \<Rightarrow> string list \<Rightarrow> 'w \<Rightarrow>
   (error + string list) \<times> 'w" where
  "notify_ended A car_identifier identifier_agent st term trunc [] removed_cars w =
     (Inr removed_cars, w)"
| "notify_ended A car_identifier identifier_agent st term trunc (car # rest) removed_cars w =
     (case dict_get term car of
        Inl e \<Rightarrow> (Inl e, w)
      | Inr t \<Rightarrow>
     (case (if t then Inr True else dict_get trunc car) of
        Inl e \<Rightarrow> (Inl e, w)
      | Inr over \<Rightarrow>
     if over then
       (case dict_get car_identifier car of
          Inl e \<Rightarrow> (Inl e, w)
        | Inr identifier \<Rightarrow>
       (case dict_get trunc car of
          Inl e \<Rightarrow> (Inl e, w)
        | Inr tr \<Rightarrow>
       let ended = [(identifier, [(car, tr)])] in
       (case end_agents A identifier_agent st ended w of
          (Inl e, w') \<Rightarrow> (Inl e, w')
        | (Inr u, w') \<Rightarrow>
            notify_ended A car_identifier identifier_agent st term trunc rest
              (set_add car removed_cars) w')))
     else notify_ended A car_identifier identifier_agent st term trunc rest removed_cars w))"

text \<open>
  The \<open>while True\<close> loop of \<open>_episode\<close>, with fuel: \<open>None\<close> means the loop was still
  running when the fuel ran out. A result carries the environment and the agents as the
  loop left them.
\<close>

fun episode_loop ::
  "nat \<Rightarrow> ('e, 'o, 'c, 'g) env \<Rightarrow> ('w, 'o, 'c, 'g) agent_ops \<Rightarrow>
   (string \<times> string) list \<Rightarrow> (string \<times> nat) list \<Rightarrow> (string \<times> string list) list \<Rightarrow>
   (string \<times> 'o) list \<Rightarrow> 'g list \<Rightarrow> nat \<Rightarrow> string list \<Rightarrow> 'e \<Rightarrow> 'w \<Rightarrow>
   ((error + 'g list \<times> nat) \<times> 'e \<times> 'w) option" where
  "episode_loop 0 E A car_identifier identifier_agent identifier_cars
     obs all_states total_agent_steps removed_cars e w = None"
| "episode_loop (Suc fuel) E A car_identifier identifier_agent identifier_cars
     obs all_states total_agent_steps removed_cars e w =
     (case select_actions A identifier_agent obs identifier_cars [] w of
        (Inl err, w1) \<Rightarrow> Some (Inl err, e, w1)
      | (Inr all_actions, w1) \<Rightarrow>
     let (res, e1) = env_step E all_actions e;
         total_agent_steps' = total_agent_steps * length (env_agents E e1);
         st = env_state E e1;
         all_states' = all_states @ [st]
     in
     (case notify_ended A car_identifier identifier_agent st (terminated res) (truncated res)
             (env_agents E e1) removed_cars w1 of
        (Inl err, w2) \<Rightarrow> Some (Inl err, e1, w2)
      | (Inr removed_cars', w2) \<Rightarrow>
     if env_agents E e1 = [] then Some (Inr (all_states', total_agent_steps'), e1, w2)
     else episode_loop fuel E A car_identifier identifier_agent identifier_cars
            (observations res) all_states' total_agent_steps' removed_cars' e1 w2))"

definition episode ::
  "nat \<Rightarrow> ('e, 'o, 'c, 'g) env \<Rightarrow> ('w, 'o, 'c, 'g) agent_ops \<Rightarrow>
   (string \<times> string) list \<Rightarrow> (string \<times> nat) list \<Rightarrow> real \<Rightarrow> real \<Rightarrow> 'e \<Rightarrow> 'w \<Rightarrow>
   ((error + 'g list \<times> nat) \<times> 'e \<times> 'w) option" where
  "episode fuel E A car_identifier identifier_agent boost grav e w =
     (let opts = \<lparr>boost_consumption = boost, gravity = grav,
                  blue = length (filter (\<lambda>k. startswith k ''blue'') (map fst car_identifier)),
                  orange = length (filter (\<lambda>k. startswith k ''orange'') (map fst car_identifier))\<rparr>;
          (obs, e0) = env_reset E opts e;
          all_states = [env_state E e0];
          identifier_cars = group_cars car_identifier []
      in episode_loop fuel E A car_identifier identifier_agent identifier_cars
           obs all_states 0 [] e0 w)"

subsection \<open>Scripted environments and recording agents\<close>

text \<open>
  To run the loop, an environment is scripted by the step at which each car ends: its
  state is the number of steps taken, which is also the game state and the observation it
  hands out. A car is stepped up to and including its last step, where it is reported
  terminated. The two conventions an environment can follow are switches:
  \<open>stay\<close> says whether a car is still listed in \<open>agents\<close> right after its last step
  (otherwise it leaves the list in that very step), \<open>full\<close> says whether \<open>step\<close> returns
  observations for every car of the match (otherwise only for the cars it stepped).
  The agents answer every observation with action 0 and record each \<open>end\<close> call.
\<close>

definition scripted_env :: "(string \<times> nat) list \<Rightarrow> bool \<Rightarrow> bool \<Rightarrow> (nat, nat, nat, nat) env" where
  "scripted_env ends stay full =
     \<lparr>env_reset = (\<lambda>opts t. (map (\<lambda>(car, n). (car, 0)) ends, 0)),
      env_step = (\<lambda>actions t.
        let t' = Suc t; stepped = filter (\<lambda>(car, n). t' \<le> n) ends
        in (\<lparr>observations = map (\<lambda>(car, n). (car, t')) (if full then ends else stepped),
             terminated = map (\<lambda>(car, n). (car, n = t')) stepped,
             truncated = map (\<lambda>(car, n). (car, False)) stepped\<rparr>, t')),
      env_agents = (\<lambda>t. map fst (filter (\<lambda>(car, n). if stay then t \<le> n else t < n) ends)),
      env_state = (\<lambda>t. t)\<rparr>"

datatype notice = End nat nat "(string \<times> bool) list"

definition recording_agents :: "(notice list, nat, nat, nat) agent_ops" where
  "recording_agents =
     \<lparr>agent_act = (\<lambda>agent seen w. (map (\<lambda>(car, ob). (car, 0)) seen, w)),
      agent_end = (\<lambda>agent st truncs w. w @ [End agent st truncs])\<rparr>"

text \<open>
  The two-seat match of the scenario: the blue car is played by agent 0 and ends at
  step 10, the orange car by agent 1 and ends at step 15.
\<close>

definition two_seats :: "(string \<times> string) list" where
  "two_seats = [(''blue-0'', ''current''), (''orange-0'', ''past'')]"

definition two_agents :: "(string \<times> nat) list" where
  "two_agents = [(''current'', 0), (''past'', 1)]"

definition ends_10_15 :: "(string \<times> nat) list" where
  "ends_10_15 = [(''blue-0'', 10), (''orange-0'', 15)]"

subsection \<open>Concrete stores and random streams\<close>

definition no_keys :: store where
  "no_keys = (\<lambda>k. None)"

definition latest_only :: store where
  "latest_only = (\<lambda>k. if k = MODEL_LATEST then Some (RString (Blob ''weights'')) else None)"

definition pool_1_3 :: store where
  "pool_1_3 = (\<lambda>k. if k = QUALITIES then Some (RList [Num 1, Num 3]) else None)"

definition steady :: "real \<Rightarrow> rng" where
  "steady u = (\<lambda>i. u)"

section \<open>Properties of worker.py\<close>

subsection \<open>The unbound name\<close>

lemma Keys_unbound: "Keys_attr worker_globals a = Inl (NameError ''Keys'')"
  by (simp add: Keys_attr_def load_name_def worker_globals_def)

text \<open>
  Claim C3. With the module's namespace as worker.py builds it, every call of
  \<open>update_model\<close> and every call of \<open>add_opponent\<close>, whatever the store and the
  arguments, raises NameError for \<open>Keys\<close> while evaluating the argument of its first
  store command: the call does not complete and the store it leaves is the store it found.
\<close>

theorem update_model_add_opponent_NameError:
  "update_model worker_globals s state_dict_dump version = (Inl (NameError ''Keys''), s)
   \<and> add_opponent worker_globals s blob = (Inl (NameError ''Keys''), s)"
  by (simp add: update_model_def add_opponent_def Keys_unbound)

text \<open>
  Claim C5. Promoting a snapshot into the empty pool should leave the quality list
  \<open>[0.0]\<close>. Run on the empty store, \<open>add_opponent\<close> raises NameError and appends
  neither a snapshot nor a quality: the quality list read back is still empty.
\<close>

theorem add_opponent_empty_pool_appends_nothing:
  "add_opponent worker_globals no_keys (Blob ''blob_A'') = (Inl (NameError ''Keys''), no_keys)
   \<and> read_qualities no_keys = Inr []"
  by (simp add: add_opponent_def Keys_unbound read_qualities_def redis_lrange_def no_keys_def)

text \<open>
  What the rest of \<open>add_opponent\<close> does in a namespace where \<open>Keys.OP_MODELS\<close> does
  resolve to a key other than the quality list: one snapshot and one quality are
  appended, the quality being the maximum of the old ones, or 0 for an empty pool.
\<close>

lemma floats_append: "floats vs = Inr rs \<Longrightarrow> floats (vs @ [Num r]) = Inr (rs @ [r])"
  by (induction vs arbitrary: rs) (auto simp: py_float_def split: sum.splits payload.splits)

lemma rpush_lrange:
  "redis_lrange k s = Inr vs \<Longrightarrow> redis_rpush k v s = Inr (s(k \<mapsto> RList (vs @ [v])))"
  by (auto simp: redis_lrange_def redis_rpush_def split: option.splits rvalue.splits)

lemma add_opponent_when_Keys_bound:
  assumes "Keys_attr g ''OP_MODELS'' = Inr k" and "k \<noteq> QUALITIES"
    and "redis_rpush k blob s = Inr s1" and "read_qualities s = Inr qs"
  shows "\<exists>s2. add_opponent g s blob = (Inr (), s2) \<and>
     read_qualities s2 = Inr (qs @ [if qs \<noteq> [] then Max (set qs) else 0])"
proof -
  let ?quality = "if qs \<noteq> [] then Max (set qs) else 0"
  have same: "s1 QUALITIES = s QUALITIES"
    using assms(2,3) by (auto simp: redis_rpush_def split: option.splits rvalue.splits)
  obtain vs where vs: "redis_lrange QUALITIES s = Inr vs" "floats vs = Inr qs"
    using assms(4) by (auto simp: read_qualities_def split: sum.splits)
  have lr: "redis_lrange QUALITIES s1 = Inr vs"
    using vs(1) same by (simp add: redis_lrange_def)
  then have rq: "read_qualities s1 = Inr qs"
    using vs(2) by (simp add: read_qualities_def)
  let ?s2 = "s1(QUALITIES \<mapsto> RList (vs @ [Num ?quality]))"
  have push: "redis_rpush QUALITIES (Num ?quality) s1 = Inr ?s2"
    using lr by (rule rpush_lrange)
  have run: "add_opponent g s blob = (Inr (), ?s2)"
    unfolding add_opponent_def Let_def using assms(1,3) rq push by simp
  have "read_qualities ?s2 = Inr (qs @ [?quality])"
    using vs(2) by (simp add: read_qualities_def redis_lrange_def floats_append)
  with run show ?thesis by blast
qed

subsection \<open>Sampling from an empty pool\<close>

lemma get_opponent_index_empty:
  "redis_lrange QUALITIES s = Inr [] \<Longrightarrow> get_opponent_index s r = (Inl ValueError, r)"
  by (simp add: get_opponent_index_def read_qualities_def softmax_def)

lemma sample_seats_empty_pool:
  assumes "redis_lrange QUALITIES s = Inr []"
  shows "sample_seats s cur adjusted k r agents =
     (if \<forall>i<k. r i < adjusted
      then Inr (agents @ replicate k (Drawn cur MODEL_LATEST current_version_prob))
      else Inl ValueError)"
proof (induction k arbitrary: r agents)
  case 0
  show ?case by simp
next
  case (Suc k)
  have split_all:
    "(\<forall>i<Suc k. r i < adjusted) \<longleftrightarrow> (r 0 < adjusted \<and> (\<forall>i<k. r (Suc i) < adjusted))"
    by (auto simp: less_Suc_eq_0_disj)
  show ?case
  proof (cases "r 0 < adjusted")
    case True
    then show ?thesis
      using Suc.IH[of "\<lambda>i. r (Suc i)" "agents @ [Drawn cur MODEL_LATEST current_version_prob]"]
      by (simp add: random_def split_all replicate_app_Cons_same)
  next
    case False
    then show ?thesis
      using get_opponent_index_empty[OF assms] by (auto simp: random_def)
  qed
qed

lemma latest_only_facts:
  "redis_lrange QUALITIES latest_only = Inr []"
  "loads_get MODEL_LATEST latest_only = Inr ''weights''"
  by (simp_all add: latest_only_def redis_lrange_def loads_get_def redis_get_def
      QUALITIES_def MODEL_LATEST_def)

text \<open>
  Claim C4, as stated: with no historical snapshot the sampler gives every seat the latest
  policy and never asks for an opponent index. It fails in a two-seat match on a store
  that holds the latest model and no quality list, when the draw for the second seat is
  0.9: the adjusted probability is 0.6, the seat is not given the latest policy,
  \<open>get_opponent_index\<close> runs on the empty list and the pass ends in the ValueError of
  \<open>np.max\<close>.
\<close>

theorem empty_pool_sampling_raises:
  "redis_lrange QUALITIES latest_only = Inr [] \<and>
   worker_agents latest_only 2 (steady (9 / 10)) = Inl ValueError"
  by (simp add: latest_only_facts worker_agents_def adjusted_prob_def current_version_prob_def
      random_def steady_def get_opponent_index_def read_qualities_def softmax_def
      numeral_2_eq_2)

text \<open>
  Claim C4, amended. With no historical snapshot, a latest model in the store and more
  than one seat, the pass has no guard of its own: it assigns the latest policy to every
  seat exactly when every draw for the seats after the reserved one is below the adjusted
  probability, and otherwise calls \<open>get_opponent_index\<close> on the empty quality list and
  raises ValueError.
\<close>

theorem empty_pool_sampling:
  assumes "redis_lrange QUALITIES s = Inr []" and "loads_get MODEL_LATEST s = Inr w"
    and "1 < n"
  shows "worker_agents s n r =
     (if \<forall>i < nat (n - 1). r i < adjusted_prob current_version_prob n
      then Inr (Reserved w MODEL_LATEST #
                replicate (nat (n - 1)) (Drawn w MODEL_LATEST current_version_prob))
      else Inl ValueError)"
  using assms(2,3) by (simp add: worker_agents_def sample_seats_empty_pool[OF assms(1)])

theorem empty_pool_sampling_witness:
  "redis_lrange QUALITIES latest_only = Inr [] \<and>
   loads_get MODEL_LATEST latest_only = Inr ''weights'' \<and> (1::int) < 3 \<and>
   worker_agents latest_only 3 (steady (1 / 2)) =
     Inr [Reserved ''weights'' MODEL_LATEST,
          Drawn ''weights'' MODEL_LATEST current_version_prob,
          Drawn ''weights'' MODEL_LATEST current_version_prob]"
  using empty_pool_sampling[of latest_only "''weights''" 3 "steady (1 / 2)"]
  by (simp add: latest_only_facts adjusted_prob_def current_version_prob_def steady_def
      numeral_2_eq_2)

subsection \<open>The adjusted probability\<close>

text \<open>
  Claim C6. For every number of seats \<open>n \<ge> 2\<close> and every \<open>p\<close> strictly between 0 and 1,
  the adjusted probability \<open>p' = (p * n - 1) / (n - 1)\<close> of line 96 satisfies
  \<open>1/n + ((n - 1)/n) * p' = p\<close>.
\<close>

theorem adjusted_prob_identity:
  "2 \<le> n \<Longrightarrow> 0 < p \<Longrightarrow> p < 1 \<Longrightarrow>
   1 / of_int n + ((of_int n - 1) / of_int n) * adjusted_prob p n = p"
  by (simp add: adjusted_prob_def field_simps)

theorem adjusted_prob_identity_witness:
  "(2::int) \<le> 3 \<and> (0::real) < 8 / 10 \<and> (8 / 10 :: real) < 1 \<and>
   adjusted_prob (8 / 10) 3 = 7 / 10 \<and>
   1 / of_int 3 + ((of_int 3 - 1) / of_int 3) * adjusted_prob (8 / 10) 3 = 8 / 10"
  using adjusted_prob_identity[of 3 "8 / 10"] by (simp add: adjusted_prob_def)

text \<open>The adjusted value is itself a probability exactly when \<open>p\<close> is at least \<open>1/n\<close>.\<close>

lemma adjusted_prob_range:
  assumes "2 \<le> n" and "p \<le> 1"
  shows "(0 \<le> adjusted_prob p n \<and> adjusted_prob p n \<le> 1) \<longleftrightarrow> 1 / of_int n \<le> p"
  using assms by (auto simp: adjusted_prob_def field_simps)

subsection \<open>Softmax\<close>

lemma sum_list_exp_pos: "xs \<noteq> [] \<Longrightarrow> 0 < sum_list (map (\<lambda>v. exp (v - (m::real))) xs)"
proof (induction xs)
  case Nil
  then show ?case by simp
next
  case (Cons a xs)
  have "0 \<le> sum_list (map (\<lambda>v. exp (v - m)) xs)"
    by (rule sum_list_nonneg) auto
  moreover have "0 < exp (a - m)" by simp
  ultimately show ?case by (simp add: add_pos_nonneg)
qed

lemma sum_list_div: "sum_list (map (\<lambda>e. e / (c::real)) xs) = sum_list xs / c"
  by (induction xs) (auto simp: add_divide_distrib)

lemma Max_shift: "q \<noteq> [] \<Longrightarrow> Max (set (map (\<lambda>v. v + (c::real)) q)) = Max (set q) + c"
  using Max_add_commute[of "set q" "\<lambda>v. v" c] by (simp add: image_def)

text \<open>
  Claim C7. For every non-empty quality vector \<open>q\<close>, \<open>_softmax\<close> returns a vector whose
  entries sum to 1, and adding one constant \<open>c\<close> to every entry of \<open>q\<close> does not change
  the result.
\<close>

theorem softmax_sums_to_one_shift_invariant:
  "q \<noteq> [] \<Longrightarrow>
   (\<exists>d. softmax q = Inr d \<and> sum_list d = 1) \<and> softmax (map (\<lambda>v. v + c) q) = softmax q"
proof
  assume ne: "q \<noteq> []"
  let ?e = "map (\<lambda>v. exp (v - Max (set q))) q"
  have pos: "0 < sum_list ?e" using ne by (rule sum_list_exp_pos)
  have "sum_list (map (\<lambda>e. e / sum_list ?e) ?e) = 1"
    using pos by (simp only: sum_list_div) simp
  then show "\<exists>d. softmax q = Inr d \<and> sum_list d = 1"
    using ne by (simp add: softmax_def Let_def)
  have mx: "Max (set (map (\<lambda>v. v + c) q)) = Max (set q) + c"
    using ne by (rule Max_shift)
  show "softmax (map (\<lambda>v. v + c) q) = softmax q"
    unfolding softmax_def Let_def mx using ne by (simp add: o_def)
qed

theorem softmax_sums_to_one_shift_invariant_witness:
  "[1, 1 :: real] \<noteq> [] \<and> softmax [1, 1] = Inr [1 / 2, 1 / 2] \<and>
   (\<exists>d. softmax [1, 1] = Inr d \<and> sum_list d = 1) \<and>
   softmax (map (\<lambda>v. v + 5) [1, 1]) = softmax [1, 1]"
  using softmax_sums_to_one_shift_invariant[of "[1, 1]" 5] by (simp add: softmax_def)

subsection \<open>The quality delta\<close>

text \<open>
  Claim C8. On a non-empty quality list, with a positive selection probability and an
  index inside the list that holds a number, \<open>update_opponent_quality\<close> adds exactly
  \<open>rate / (n * prob)\<close> to that entry, \<open>n\<close> being the current length of the list, and
  changes nothing else.
\<close>

theorem update_opponent_quality_delta:
  assumes "s QUALITIES = Some (RList qs)" and "qs \<noteq> []" and "0 < prob"
    and "list_pos qs index = Some j" and "qs ! j = Num q"
  shows "update_opponent_quality s index prob rate =
     (Inr (), s(QUALITIES \<mapsto> RList (qs[j := Num (q + rate / (real (length qs) * prob))])))"
  using assms
  by (simp add: update_opponent_quality_def redis_llen_def quality_script_def redis_lindex_def
      lua_tonumber_def redis_lset_def Let_def)

theorem update_opponent_quality_delta_witness:
  "pool_1_3 QUALITIES = Some (RList [Num 1, Num 3]) \<and> [Num 1, Num 3] \<noteq> [] \<and>
   (0::real) < 1 / 2 \<and> list_pos [Num 1, Num 3] 1 = Some 1 \<and> [Num 1, Num 3] ! 1 = Num 3 \<and>
   update_opponent_quality pool_1_3 1 (1 / 2) 2 =
     (Inr (), pool_1_3(QUALITIES \<mapsto> RList [Num 1, Num 5]))"
proof -
  have "update_opponent_quality pool_1_3 1 (1 / 2) 2 =
     (Inr (), pool_1_3(QUALITIES \<mapsto>
        RList ([Num 1, Num 3][1 := Num (3 + 2 / (real (length [Num 1, Num 3]) * (1 / 2)))])))"
    by (rule update_opponent_quality_delta) (simp_all add: pool_1_3_def list_pos_def)
  then show ?thesis by (simp add: pool_1_3_def list_pos_def)
qed

section \<open>Properties of the episode loop\<close>

text \<open>
  Whatever the environment and the agents do, the iteration in which the environment
  lists no agent after its step is the one that returns, and it calls no \<open>end\<close>: the
  agents are left as the \<open>act\<close> calls of that iteration left them.
\<close>

lemma last_iteration_notifies_nobody:
  assumes "select_actions A identifier_agent obs identifier_cars [] w = (Inr all_actions, w1)"
    and "env_step E all_actions e = (res, e1)" and "env_agents E e1 = []"
  shows "episode_loop (Suc fuel) E A car_identifier identifier_agent identifier_cars
           obs all_states n removed_cars e w =
         Some (Inr (all_states @ [env_state E e1], 0), e1, w1)"
  using assms by simp

lemma episode_loop_returns_without_agents:
  "episode_loop fuel E A ci ia ic obs sts n removed e w = Some (Inr r, e', w')
   \<Longrightarrow> env_agents E e' = []"
proof (induction fuel arbitrary: obs sts n removed e w)
  case 0
  then show ?case by simp
next
  case (Suc fuel)
  then show ?case
    by (auto simp: Let_def split: prod.splits sum.splits if_splits)
qed

lemma episode_loop_steps_zero:
  "episode_loop fuel E A ci ia ic obs sts 0 removed e w = Some (Inr (all_states, steps), e', w')
   \<Longrightarrow> steps = 0"
proof (induction fuel arbitrary: obs sts removed e w)
  case 0
  then show ?case by simp
next
  case (Suc fuel)
  then show ?case
    by (auto simp: Let_def split: prod.splits sum.splits if_splits)
qed

text \<open>
  Claim C9. In a two-seat episode where the blue car ends at step 10 and the orange car
  at step 15, the loop should go on stepping the orange car, tell each car's agent once
  that it ended, and return a trajectory that reaches step 15. Run on the environment
  that lists a car through its last step and returns observations for the cars it
  stepped, the loop tells the blue car's agent at step 10, steps once more, and then
  raises KeyError for \<open>blue-0\<close> when it asks for actions at the twelfth iteration: the
  ended car was put into \<open>removed_cars\<close> but never taken out of \<open>identifier_cars\<close>.
  No trajectory is returned, and the orange car's agent is never told.
\<close>

theorem episode_partial_termination_KeyError:
  "episode 20 (scripted_env ends_10_15 True False) recording_agents two_seats two_agents 1 1 0 [] =
   Some (Inl (KeyError ''blue-0''), 11, [End 0 10 [(''blue-0'', False)]])"
  by code_simp

text \<open>
  The same match under the other conventions. When a car leaves \<open>agents\<close> in the step that
  ends it, the loop never sees it flagged and no agent is told anything; when every car
  keeps an observation, the loop survives, but an agent told at step 15 means the
  environment still listed its car then, and the loop takes a sixteenth step.
\<close>

lemma episode_leave_stepped:
  "episode 20 (scripted_env ends_10_15 False False) recording_agents two_seats two_agents 1 1 0 [] =
   Some (Inl (KeyError ''blue-0''), 11, [])"
  by code_simp

lemma episode_leave_full:
  "episode 20 (scripted_env ends_10_15 False True) recording_agents two_seats two_agents 1 1 0 [] =
   Some (Inr ([0, 1, 2, 3, 4, 5, 6, 7, 8, 9, 10, 11, 12, 13, 14, 15], 0), 15, [])"
  by code_simp

lemma episode_stay_full:
  "episode 20 (scripted_env ends_10_15 True True) recording_agents two_seats two_agents 1 1 0 [] =
   Some (Inr ([0, 1, 2, 3, 4, 5, 6, 7, 8, 9, 10, 11, 12, 13, 14, 15, 16], 0), 16,
         [End 0 10 [(''blue-0'', False)], End 1 15 [(''orange-0'', False)]])"
  by code_simp

text \<open>
  Claim C10. Whenever \<open>_episode\<close> returns, for any environment, agents and matchup and
  after any number of steps, the \<open>total_agent_steps\<close> it returns is 0: the counter starts
  at 0 and is only multiplied.
\<close>

theorem episode_total_agent_steps_zero:
  "episode fuel E A car_identifier identifier_agent boost grav e w =
     Some (Inr (all_states, total_agent_steps), e', w') \<Longrightarrow> total_agent_steps = 0"
  by (auto simp: episode_def Let_def split: prod.splits dest: episode_loop_steps_zero)

theorem episode_total_agent_steps_zero_witness:
  "episode 16 (scripted_env ends_10_15 True True) recording_agents two_seats two_agents 1 1 0 [] =
     Some (Inr ([0, 1, 2, 3, 4, 5, 6, 7, 8, 9, 10, 11, 12, 13, 14, 15, 16], 0), 16,
           [End 0 10 [(''blue-0'', False)], End 1 15 [(''orange-0'', False)]])
   \<and> (0::nat) = 0"
proof -
  have run: "episode 16 (scripted_env ends_10_15 True True) recording_agents two_seats two_agents
      1 1 0 [] =
     Some (Inr ([0, 1, 2, 3, 4, 5, 6, 7, 8, 9, 10, 11, 12, 13, 14, 15, 16], 0), 16,
           [End 0 10 [(''blue-0'', False)], End 1 15 [(''orange-0'', False)]])"
    by code_simp
  show ?thesis using run episode_total_agent_steps_zero[OF run] by simp
qed

end
